theory Spec2Isabelle
  imports Main "HOL-Library.AList"
begin

section \<open>Text primitives of the host language\<close>

text \<open>
  KSPL source text is a Python \<open>str\<close>.  It is modelled as a \<open>string\<close> whose characters
  are the code points below 256.  The character classes are the ones Python's \<open>re\<close>
  module and \<open>str.strip\<close> use on that range.
\<close>

definition isspace :: "char \<Rightarrow> bool" where
  \<comment> \<open>\<open>\s\<close> and \<open>str.isspace\<close>: TAB..CR, FS..US, space, NEL, NBSP\<close>
  "isspace c = (let n = (of_char c :: nat) in
     (9 \<le> n \<and> n \<le> 13) \<or> (28 \<le> n \<and> n \<le> 32) \<or> n = 133 \<or> n = 160)"

definition isdigit :: "char \<Rightarrow> bool" where
  \<comment> \<open>\<open>\d\<close>: the decimal digits\<close>
  "isdigit c = (let n = (of_char c :: nat) in 48 \<le> n \<and> n \<le> 57)"

definition isword :: "char \<Rightarrow> bool" where
  \<comment> \<open>\<open>\w\<close>: alphanumeric characters and the underscore\<close>
  "isword c = (let n = (of_char c :: nat) in
     (48 \<le> n \<and> n \<le> 57) \<or> (65 \<le> n \<and> n \<le> 90) \<or> n = 95 \<or> (97 \<le> n \<and> n \<le> 122) \<or>
     n = 170 \<or> n = 178 \<or> n = 179 \<or> n = 181 \<or> n = 185 \<or> n = 186 \<or>
     (188 \<le> n \<and> n \<le> 190) \<or> (192 \<le> n \<and> n \<le> 214) \<or> (216 \<le> n \<and> n \<le> 246) \<or>
     (248 \<le> n \<and> n \<le> 255))"

definition isworddot :: "char \<Rightarrow> bool" where
  \<comment> \<open>the character class \<open>[\w\.]\<close>\<close>
  "isworddot c = (isword c \<or> c = CHR ''.'')"

definition dquote :: char where
  "dquote = CHR 0x22"

definition squote :: char where
  "squote = CHR 0x27"

definition newline :: char where
  "newline = CHR 0x0A"

definition strip :: "string \<Rightarrow> string" where
  \<comment> \<open>\<open>s.strip()\<close>\<close>
  "strip s = dropWhile isspace (rev (dropWhile isspace (rev s)))"

definition startswith :: "string \<Rightarrow> string \<Rightarrow> bool" where
  \<comment> \<open>\<open>s.startswith(p)\<close>\<close>
  "startswith s p = (take (length p) s = p)"

definition endswith :: "string \<Rightarrow> string \<Rightarrow> bool" where
  \<comment> \<open>\<open>s.endswith(p)\<close>\<close>
  "endswith s p = (length p \<le> length s \<and> drop (length s - length p) s = p)"

fun split_on :: "char \<Rightarrow> string \<Rightarrow> string list" where
  \<comment> \<open>\<open>s.split(c)\<close> for a one-character separator\<close>
  "split_on c [] = [[]]"
| "split_on c (x # xs) =
     (if x = c then [] # split_on c xs
      else (case split_on c xs of
              [] \<Rightarrow> [[x]]
            | p # ps \<Rightarrow> (x # p) # ps))"

definition count_char :: "char \<Rightarrow> string \<Rightarrow> nat" where
  \<comment> \<open>\<open>s.count(c)\<close> for a one-character pattern\<close>
  "count_char c s = length (filter (\<lambda>x. x = c) s)"

section \<open>Splitting a call's argument text\<close>

text \<open>
  \<open>KSPLInterpreter.split_arguments\<close>.  The loop variables are \<open>args\<close>, \<open>current\<close>,
  \<open>depth\<close>, \<open>in_string\<close> and \<open>string_char\<close>; the index \<open>i\<close> walks the text from left
  to right, so the loop is a recursion on the text that is still unread.
\<close>

fun split_loop ::
  "string \<Rightarrow> string list \<Rightarrow> string \<Rightarrow> int \<Rightarrow> bool \<Rightarrow> char option \<Rightarrow> string list \<times> string" where
  "split_loop [] args current depth in_string string_char = (args, current)"
| "split_loop (c # cs) args current depth in_string string_char =
     (if c = dquote \<or> c = squote then
        (if \<not> in_string then split_loop cs args (current @ [c]) depth True (Some c)
         else if string_char = Some c then split_loop cs args (current @ [c]) depth False None
         else split_loop cs args (current @ [c]) depth in_string string_char)
      else if \<not> in_string \<and> c = CHR ''('' then
        split_loop cs args (current @ [c]) (depth + 1) in_string string_char
      else if \<not> in_string \<and> c = CHR '')'' then
        split_loop cs args (current @ [c]) (depth - 1) in_string string_char
      else if \<not> in_string \<and> depth = 0 \<and> c = CHR '','' then
        split_loop cs (args @ [strip current]) [] depth in_string string_char
      else split_loop cs args (current @ [c]) depth in_string string_char)"

definition split_arguments :: "string \<Rightarrow> string list" where
  "split_arguments args_text =
     (case split_loop args_text [] [] 0 False None of
        (args, current) \<Rightarrow> if current \<noteq> [] then args @ [strip current] else args)"


section \<open>The regular expressions of the interpreter\<close>

text \<open>
  Each pattern is applied with \<open>re.match\<close>, that is, anchored at the start of the text
  only.  In every pattern below the greedy repetitions are followed by a character that
  the repeated class excludes, so the first (greedy) attempt is the only one that can
  succeed and the match is computed by \<open>takeWhile\<close> and \<open>dropWhile\<close>.  The group
  \<open>(.*)\<close> stops at the first newline.
\<close>

definition rest_of_line :: "string \<Rightarrow> string" where
  \<comment> \<open>what \<open>(.*)\<close> matches\<close>
  "rest_of_line s = takeWhile (\<lambda>c. c \<noteq> newline) s"

definition eq_rhs :: "string \<Rightarrow> string option" where
  \<comment> \<open>the tail \<open>\s*=\s*(.*)\<close> of a pattern: the text of group \<open>(.*)\<close>\<close>
  "eq_rhs s =
     (case dropWhile isspace s of
        [] \<Rightarrow> None
      | c # r \<Rightarrow> if c = CHR ''='' then Some (rest_of_line (dropWhile isspace r)) else None)"

definition keyword_def_match :: "string \<Rightarrow> string \<Rightarrow> (string \<times> string) option" where
  \<comment> \<open>\<open>kw\s+(\w+)\s*=\s*(.*)\<close> for a literal keyword \<open>kw\<close>\<close>
  "keyword_def_match kw s =
     (if \<not> startswith s kw then None
      else let r = drop (length kw) s in
        if takeWhile isspace r = [] then None
        else let r1 = dropWhile isspace r; name = takeWhile isword r1 in
          if name = [] then None
          else (case eq_rhs (dropWhile isword r1) of
                  None \<Rightarrow> None
                | Some e \<Rightarrow> Some (name, e)))"

definition let_match :: "string \<Rightarrow> (string \<times> string) option" where
  \<comment> \<open>\<open>let\s+(\w+)\s*=\s*(.*)\<close>\<close>
  "let_match s = keyword_def_match ''let'' s"

definition field_match :: "string \<Rightarrow> (string \<times> string) option" where
  \<comment> \<open>\<open>field\s+(\w+)\s*=\s*(.*)\<close>\<close>
  "field_match s = keyword_def_match ''field'' s"

definition assign_match :: "string \<Rightarrow> (string \<times> string) option" where
  \<comment> \<open>\<open>([\w\.]+)\s*=\s*(.*)\<close>\<close>
  "assign_match s =
     (let target = takeWhile isworddot s in
      if target = [] then None
      else (case eq_rhs (dropWhile isworddot s) of
              None \<Rightarrow> None
            | Some e \<Rightarrow> Some (target, e)))"

definition if_match :: "string \<Rightarrow> string option" where
  \<comment> \<open>\<open>if\s+([^{]+)\s*\{\<close>: the group runs up to the first brace; when everything
      before the brace is white space, \<open>\s+\<close> gives its last character back to the group\<close>
  "if_match s =
     (if \<not> startswith s ''if'' then None
      else let r = drop 2 s;
               pre = takeWhile (\<lambda>c. c \<noteq> CHR ''{'') r;
               m = length (takeWhile isspace pre) in
        if dropWhile (\<lambda>c. c \<noteq> CHR ''{'') r = [] then None
        else if m = 0 then None
        else if m < length pre then Some (drop m pre)
        else if 2 \<le> m then Some (drop (m - 1) pre)
        else None)"

definition call_match :: "string \<Rightarrow> (string \<times> string) option" where
  \<comment> \<open>\<open>([\w\.]+)\s*\((.*)\)\<close>: the second group ends before the last closing
      parenthesis of the line\<close>
  "call_match s =
     (let fn_name = takeWhile isworddot s in
      if fn_name = [] then None
      else (case dropWhile isspace (dropWhile isworddot s) of
              [] \<Rightarrow> None
            | c # r \<Rightarrow>
                if c \<noteq> CHR ''('' then None
                else let seg = rest_of_line r in
                  if CHR '')'' \<notin> set seg then None
                  else Some (fn_name, rev (tl (dropWhile (\<lambda>x. x \<noteq> CHR '')'') (rev seg))))))"

definition class_match :: "string \<Rightarrow> string option" where
  \<comment> \<open>\<open>class\s+(\w+)\s*\{\<close>\<close>
  "class_match s =
     (if \<not> startswith s ''class'' then None
      else let r = drop 5 s in
        if takeWhile isspace r = [] then None
        else let r1 = dropWhile isspace r; name = takeWhile isword r1 in
          if name = [] then None
          else (case dropWhile isspace (dropWhile isword r1) of
                  [] \<Rightarrow> None
                | c # _ \<Rightarrow> if c = CHR ''{'' then Some name else None))"

definition fn_match :: "string \<Rightarrow> (string \<times> string) option" where
  \<comment> \<open>\<open>fn\s+(\w+)\s*\(([^)]*)\)\s*\{\<close>\<close>
  "fn_match s =
     (if \<not> startswith s ''fn'' then None
      else let r = drop 2 s in
        if takeWhile isspace r = [] then None
        else let r1 = dropWhile isspace r; name = takeWhile isword r1 in
          if name = [] then None
          else (case dropWhile isspace (dropWhile isword r1) of
                  [] \<Rightarrow> None
                | c # r2 \<Rightarrow>
                    if c \<noteq> CHR ''('' then None
                    else (case dropWhile (\<lambda>x. x \<noteq> CHR '')'') r2 of
                            [] \<Rightarrow> None
                          | _ # r3 \<Rightarrow>
                              (case dropWhile isspace r3 of
                                 [] \<Rightarrow> None
                               | b # _ \<Rightarrow>
                                   if b = CHR ''{''
                                   then Some (name, takeWhile (\<lambda>x. x \<noteq> CHR '')'') r2)
                                   else None))))"

definition split_params :: "string \<Rightarrow> string list" where
  \<comment> \<open>\<open>[p.strip() for p in text.split(',') if p.strip()]\<close>\<close>
  "split_params s = filter (\<lambda>p. p \<noteq> []) (map strip (split_on (CHR '','') s))"

definition is_int_literal :: "string \<Rightarrow> bool" where
  \<comment> \<open>\<open>^-?\d+$\<close> on a stripped text\<close>
  "is_int_literal s =
     (let b = (case s of c # r \<Rightarrow> if c = CHR ''-'' then r else s | [] \<Rightarrow> s)
      in b \<noteq> [] \<and> list_all isdigit b)"

definition is_float_literal :: "string \<Rightarrow> bool" where
  \<comment> \<open>\<open>^-?\d+\.\d+$\<close> on a stripped text\<close>
  "is_float_literal s =
     (let b = (case s of c # r \<Rightarrow> if c = CHR ''-'' then r else s | [] \<Rightarrow> s);
          ip = takeWhile isdigit b
      in ip \<noteq> [] \<and>
         (case dropWhile isdigit b of
            [] \<Rightarrow> False
          | c # fp \<Rightarrow> c = CHR ''.'' \<and> fp \<noteq> [] \<and> list_all isdigit fp))"

definition digits_value :: "string \<Rightarrow> int" where
  "digits_value ds = foldl (\<lambda>n c. 10 * n + (int (of_char c) - 48)) 0 ds"

definition int_of_literal :: "string \<Rightarrow> int" where
  \<comment> \<open>\<open>int(expr)\<close> for a text accepted by \<open>is_int_literal\<close>\<close>
  "int_of_literal s =
     (case s of
        c # r \<Rightarrow> if c = CHR ''-'' then - digits_value r else digits_value s
      | [] \<Rightarrow> 0)"

section \<open>Values, objects and the interpreter state\<close>

text \<open>
  A KSPL value is a Python object.  Instances of \<open>KSPLObject\<close> are mutable and shared,
  so they live in a heap and a value refers to them by address.  A \<open>KSPLClass\<close> is fixed
  once loaded and is carried as a value.  \<open>VFun c\<close> is a callable that \<open>run\<close> registers
  for a top-level \<open>fn\<close>: a lambda that executes \<open>body\<close> with \<open>params\<close> zipped to the
  arguments, where \<open>params\<close> and \<open>body\<close> are local variables of the invocation \<open>c\<close> of
  \<open>run\<close> that created it, read when the lambda is called.  \<open>VCtor name\<close> is the
  constructor closure that \<open>run\<close> registers for a class.
  A float is kept as its literal text.  Everything else (builtin functions, bound
  methods, the objects of the runtime module) is a host value with a name.
\<close>

datatype val =
    VNull
  | VBool bool
  | VInt int
  | VFloat string
  | VStr string
  | VObj nat
  | VClass kclass
  | VFun nat
  | VCtor string
  | VHost string
and kclass =
    KSPLClass (cname: string)
              (cmethods: "(string \<times> string list \<times> string list) list")
              (cfields: "(string \<times> val) list")

type_synonym env = "(string \<times> val) list"

datatype error =
    InvalidClassDefinition
  | InvalidFunctionDefinition
  | PropertyNotFound string
  | CouldNotEvaluate string
  | InvalidFunctionCall string
  | MethodNotFound string
  | FunctionNotFound string
  | VariableNotFound string
  | MethodNotInClass string string
  | PyException string

text \<open>
  The constructors of \<open>error\<close> are the messages with which the interpreter raises
  \<open>KSPLRuntimeError\<close>; \<open>PyException\<close> is any other Python exception, named by its class.
\<close>

record state =
  globals :: env
  classes :: "(string \<times> kclass) list"
  heap :: "env list"
  frames :: "(string list \<times> string list) list"

text \<open>
  \<open>globals\<close> and \<open>classes\<close> are the two dictionaries of the interpreter, \<open>heap\<close> holds the
  \<open>__dict__\<close> of every instance created so far, and \<open>frames\<close> holds, for every invocation
  of \<open>run\<close>, the current values of its local variables \<open>params\<close> and \<open>body\<close>.
\<close>

text \<open>
  The part of Python that the interpreter calls into but that is not KSPL's own code is a
  parameter of the model: the \<open>eval\<close> fallback of \<open>eval_expression\<close> (\<open>None\<close> when it
  raises, whatever the exception, since the bare \<open>except\<close> turns each into the same
  error), attributes other than the entries of an instance's \<open>__dict__\<close>, items of host
  dictionaries, calls of host callables, attribute stores on values that are not
  instances, and the test of \<open>execute_block\<close> for a dictionary with a true
  \<open>__return__\<close> entry.
\<close>

record host =
  h_eval :: "state \<Rightarrow> env \<Rightarrow> string \<Rightarrow> (val \<times> state) option"
  h_getattr :: "state \<Rightarrow> val \<Rightarrow> string \<Rightarrow> val option"
  h_item :: "state \<Rightarrow> val \<Rightarrow> string \<Rightarrow> val option"
  h_callable :: "string \<Rightarrow> bool"
  h_call :: "state \<Rightarrow> val \<Rightarrow> val list \<Rightarrow> error + (val \<times> state)"
  h_setattr :: "state \<Rightarrow> val \<Rightarrow> string \<Rightarrow> val \<Rightarrow> error + state"
  h_return :: "string \<Rightarrow> (error + val) option"

definition setup_builtins :: env where
  "setup_builtins =
     [(''create_virtucard'', VHost ''create_virtucard''),
      (''transfer'', VHost ''transfer''),
      (''VirtualTerminal'', VHost ''VirtualTerminal''),
      (''Avatar'', VHost ''Avatar''),
      (''VirtualItem'', VHost ''VirtualItem''),
      (''print'', VHost ''print''),
      (''len'', VHost ''len''),
      (''str'', VHost ''str''),
      (''int'', VHost ''int''),
      (''float'', VHost ''float''),
      (''bool'', VHost ''bool''),
      (''true'', VBool True),
      (''false'', VBool False),
      (''null'', VNull),
      (''get_avatar'', VHost ''get_avatar''),
      (''create_portal'', VHost ''create_portal''),
      (''get_environment'', VHost ''get_environment'')]"

definition init_state :: state where
  \<comment> \<open>\<open>KSPLInterpreter.__init__\<close>\<close>
  "init_state = \<lparr>globals = setup_builtins, classes = [], heap = [], frames = []\<rparr>"

definition dict_update :: "env \<Rightarrow> env \<Rightarrow> env" where
  \<comment> \<open>\<open>d.update(other)\<close>\<close>
  "dict_update d other = foldl (\<lambda>acc kv. AList.update (fst kv) (snd kv) acc) d other"

definition py_getattr :: "host \<Rightarrow> state \<Rightarrow> val \<Rightarrow> string \<Rightarrow> val option" where
  \<comment> \<open>\<open>getattr(obj, prop)\<close> when \<open>hasattr(obj, prop)\<close>, else \<open>None\<close>.  An instance
      answers from its \<open>__dict__\<close> first; names that the type itself defines are the
      host's (the data descriptors \<open>__class__\<close>, \<open>__dict__\<close> and \<open>__weakref__\<close> of
      \<open>object\<close> are taken not to be used as field names)\<close>
  "py_getattr H st obj prop =
     (case obj of
        VObj a \<Rightarrow>
          (if a < length (heap st)
           then (case map_of (heap st ! a) prop of
                   Some v \<Rightarrow> Some v
                 | None \<Rightarrow> h_getattr H st obj prop)
           else h_getattr H st obj prop)
      | _ \<Rightarrow> h_getattr H st obj prop)"

definition py_setattr :: "host \<Rightarrow> state \<Rightarrow> val \<Rightarrow> string \<Rightarrow> val \<Rightarrow> error + state" where
  \<comment> \<open>\<open>setattr(current, prop, value)\<close>: an instance stores into its \<open>__dict__\<close>\<close>
  "py_setattr H st obj prop v =
     (case obj of
        VObj a \<Rightarrow>
          (if a < length (heap st)
           then Inr (st\<lparr>heap := (heap st)[a := AList.update prop v (heap st ! a)]\<rparr>)
           else h_setattr H st obj prop v)
      | _ \<Rightarrow> h_setattr H st obj prop v)"

definition py_callable :: "host \<Rightarrow> val \<Rightarrow> bool" where
  \<comment> \<open>\<open>callable(v)\<close>\<close>
  "py_callable H v =
     (case v of
        VFun _ \<Rightarrow> True
      | VCtor _ \<Rightarrow> True
      | VHost h \<Rightarrow> h_callable H h
      | _ \<Rightarrow> False)"

definition return_marker :: "host \<Rightarrow> val \<Rightarrow> (error + val) option" where
  \<comment> \<open>\<open>isinstance(result, dict) and result.get('__return__')\<close>, then
      \<open>result['value']\<close>; only a host value can be a dictionary\<close>
  "return_marker H v = (case v of VHost h \<Rightarrow> h_return H h | _ \<Rightarrow> None)"

fun walk_props :: "host \<Rightarrow> state \<Rightarrow> val \<Rightarrow> string list \<Rightarrow> error + val" where
  \<comment> \<open>the loop over a property chain, in \<open>eval_expression\<close> and in the assignment\<close>
  "walk_props H st obj [] = Inr obj"
| "walk_props H st obj (prop # props) =
     (case py_getattr H st obj prop of
        Some v \<Rightarrow> walk_props H st v props
      | None \<Rightarrow>
          (case h_item H st obj prop of
             Some v \<Rightarrow> walk_props H st v props
           | None \<Rightarrow> Inl (PropertyNotFound prop)))"

fun bind_params :: "env \<Rightarrow> string list \<Rightarrow> val list \<Rightarrow> env" where
  \<comment> \<open>the parameter loop of \<open>call_method\<close>\<close>
  "bind_params local_env [] args = local_env"
| "bind_params local_env (param # params) [] =
     bind_params (AList.update param VNull local_env) params []"
| "bind_params local_env (param # params) (a # args) =
     bind_params (AList.update param a local_env) params args"

definition dict_of_pairs :: "(string \<times> val) list \<Rightarrow> env" where
  \<comment> \<open>\<open>dict(pairs)\<close>\<close>
  "dict_of_pairs ps = dict_update [] ps"

section \<open>The evaluator\<close>

text \<open>
  \<open>eval_expression\<close>, \<open>eval_function_call\<close>, \<open>execute_statement\<close>, \<open>execute_block\<close>,
  \<open>KSPLObject.__init__\<close> (here \<open>new_object\<close>) and \<open>KSPLObject.call_method\<close> call one
  another, and a KSPL function may call itself.  The body of each is written first, as
  the source has it, with the functions it calls as parameters (named as in the source,
  with a prime); the recursion is then tied by a fuel argument that stands for Python's
  recursion limit: each nested call spends one unit and an evaluation that has none left
  stops with \<open>RecursionError\<close>.  \<open>eval_args\<close> is the argument loop of
  \<open>eval_function_call\<close>, \<open>block_loop\<close> the loop of \<open>execute_block\<close> with its variable
  \<open>result\<close>, \<open>call_value\<close> the Python call \<open>f(*args)\<close>.  The flag of \<open>call_method\<close>
  tells whether its \<open>interpreter\<close> argument is an interpreter (\<open>True\<close>) or \<open>None\<close>
  (\<open>False\<close>).  A statement returns the local environment as it has left it, since the
  Python dictionary is updated in place.
\<close>

type_synonym expr_fun = "state \<Rightarrow> string \<Rightarrow> env \<Rightarrow> error + (val \<times> state)"
type_synonym stmt_fun = "state \<Rightarrow> string \<Rightarrow> env \<Rightarrow> error + (val \<times> env \<times> state)"
type_synonym block_fun = "state \<Rightarrow> string list \<Rightarrow> env \<Rightarrow> error + (val \<times> env \<times> state)"
type_synonym call_fun = "state \<Rightarrow> val \<Rightarrow> val list \<Rightarrow> error + (val \<times> state)"
type_synonym new_fun = "state \<Rightarrow> kclass \<Rightarrow> val list \<Rightarrow> error + (val \<times> state)"
type_synonym method_fun =
  "state \<Rightarrow> val \<Rightarrow> string \<Rightarrow> bool \<Rightarrow> val list \<Rightarrow> error + (val \<times> state)"

definition recursion_error :: error where
  "recursion_error = PyException ''RecursionError''"

definition eval_expression_body ::
  "host \<Rightarrow> expr_fun \<Rightarrow> expr_fun \<Rightarrow> state \<Rightarrow> string \<Rightarrow> env \<Rightarrow> error + (val \<times> state)" where
  "eval_expression_body H eval_expression' eval_function_call' st expr0 local_env =
     (let expr = strip expr0 in
      if (startswith expr [dquote] \<and> endswith expr [dquote]) \<or>
         (startswith expr [squote] \<and> endswith expr [squote])
      then Inr (VStr (butlast (tl expr)), st)
      else if expr = ''true'' then Inr (VBool True, st)
      else if expr = ''false'' then Inr (VBool False, st)
      else if expr = ''null'' then Inr (VNull, st)
      else if is_int_literal expr then Inr (VInt (int_of_literal expr), st)
      else if is_float_literal expr then Inr (VFloat expr, st)
      else (case map_of local_env expr of
              Some v \<Rightarrow> Inr (v, st)
            | None \<Rightarrow>
          (case map_of (globals st) expr of
              Some v \<Rightarrow> Inr (v, st)
            | None \<Rightarrow>
          if CHR ''('' \<in> set expr \<and> endswith expr '')''
          then eval_function_call' st expr local_env
          else if CHR ''.'' \<in> set expr
          then (let parts = split_on (CHR ''.'') expr in
                case eval_expression' st (hd parts) local_env of
                  Inl e \<Rightarrow> Inl e
                | Inr (obj, st1) \<Rightarrow>
                    (case walk_props H st1 obj (tl parts) of
                       Inl e \<Rightarrow> Inl e
                     | Inr v \<Rightarrow> Inr (v, st1)))
          else (case h_eval H st local_env expr of
                  None \<Rightarrow> Inl (CouldNotEvaluate expr)
                | Some r \<Rightarrow> Inr r))))"

fun eval_args :: "expr_fun \<Rightarrow> state \<Rightarrow> string list \<Rightarrow> env \<Rightarrow> error + (val list \<times> state)" where
  "eval_args eval_expression' st [] local_env = Inr ([], st)"
| "eval_args eval_expression' st (arg # arg_list) local_env =
     (case eval_expression' st arg local_env of
        Inl e \<Rightarrow> Inl e
      | Inr (v, st1) \<Rightarrow>
          (case eval_args eval_expression' st1 arg_list local_env of
             Inl e \<Rightarrow> Inl e
           | Inr (vs, st2) \<Rightarrow> Inr (v # vs, st2)))"

definition eval_function_call_body ::
  "host \<Rightarrow> expr_fun \<Rightarrow> call_fun \<Rightarrow> method_fun \<Rightarrow> new_fun \<Rightarrow>
   state \<Rightarrow> string \<Rightarrow> env \<Rightarrow> error + (val \<times> state)" where
  "eval_function_call_body H eval_expression' call_value' call_method' new_object'
     st expr local_env =
     (case call_match expr of
        None \<Rightarrow> Inl (InvalidFunctionCall expr)
      | Some (fn_name, group2) \<Rightarrow>
          (let args_text = strip group2 in
           case (if args_text \<noteq> []
                 then eval_args eval_expression' st (split_arguments args_text) local_env
                 else Inr ([], st)) of
             Inl e \<Rightarrow> Inl e
           | Inr (args, st1) \<Rightarrow>
               if CHR ''.'' \<in> set fn_name
               then (let parts = split_on (CHR ''.'') fn_name in
                     case eval_expression' st1 (hd parts) local_env of
                       Inl e \<Rightarrow> Inl e
                     | Inr (obj, st2) \<Rightarrow>
                         (let method_name = parts ! 1 in
                          case py_getattr H st2 obj method_name of
                            Some method \<Rightarrow> call_value' st2 method args
                          | None \<Rightarrow>
                              (case obj of
                                 VObj a \<Rightarrow>
                                   (case py_getattr H st2 obj ''_klass'' of
                                      Some (VClass k) \<Rightarrow>
                                        if map_of (cmethods k) method_name \<noteq> None
                                        then call_method' st2 obj method_name True args
                                        else Inl (MethodNotFound method_name)
                                    | _ \<Rightarrow> Inl (PyException ''AttributeError''))
                               | _ \<Rightarrow> Inl (MethodNotFound method_name))))
               else if (case map_of (globals st1) fn_name of
                          Some f \<Rightarrow> py_callable H f
                        | None \<Rightarrow> False)
               then call_value' st1 (the (map_of (globals st1) fn_name)) args
               else (case map_of (classes st1) fn_name of
                       Some klass \<Rightarrow> new_object' st1 klass args
                     | None \<Rightarrow> Inl (FunctionNotFound fn_name))))"

definition call_value_body ::
  "host \<Rightarrow> block_fun \<Rightarrow> new_fun \<Rightarrow> state \<Rightarrow> val \<Rightarrow> val list \<Rightarrow> error + (val \<times> state)" where
  "call_value_body H execute_block' new_object' st f args =
     (case f of
        VFun c \<Rightarrow>
          (if c < length (frames st)
           then (case frames st ! c of
                   (params, body) \<Rightarrow>
                     (case execute_block' st body (dict_of_pairs (zip params args)) of
                        Inl e \<Rightarrow> Inl e
                      | Inr (v, _, st1) \<Rightarrow> Inr (v, st1)))
           else h_call H st f args)
      | VCtor cls_name \<Rightarrow>
          (case map_of (classes st) cls_name of
             None \<Rightarrow> Inl (PyException ''KeyError'')
           | Some klass \<Rightarrow> new_object' st klass args)
      | _ \<Rightarrow> h_call H st f args)"

definition new_object_body ::
  "host \<Rightarrow> method_fun \<Rightarrow> state \<Rightarrow> kclass \<Rightarrow> val list \<Rightarrow> error + (val \<times> state)" where
  \<comment> \<open>\<open>KSPLObject.__init__\<close>: the new instance is the next free address\<close>
  "new_object_body H call_method' st klass args =
     (let a = length (heap st);
          d = dict_update [(''_klass'', VClass klass)] (cfields klass);
          st1 = st\<lparr>heap := heap st @ [d]\<rparr>
      in if map_of (cmethods klass) ''init'' \<noteq> None
         then (case call_method' st1 (VObj a) ''init'' False args of
                 Inl e \<Rightarrow> Inl e
               | Inr (_, st2) \<Rightarrow> Inr (VObj a, st2))
         else if args \<noteq> []
         then (case py_setattr H st1 (VObj a) ''name'' (hd args) of
                 Inl e \<Rightarrow> Inl e
               | Inr st2 \<Rightarrow> Inr (VObj a, st2))
         else Inr (VObj a, st1))"

definition call_method_body ::
  "host \<Rightarrow> block_fun \<Rightarrow> state \<Rightarrow> val \<Rightarrow> string \<Rightarrow> bool \<Rightarrow> val list \<Rightarrow>
   error + (val \<times> state)" where
  "call_method_body H execute_block' st obj method_name has_interpreter args =
     (case py_getattr H st obj ''_klass'' of
        Some (VClass k) \<Rightarrow>
          (case map_of (cmethods k) method_name of
             None \<Rightarrow> Inl (MethodNotInClass method_name (cname k))
           | Some (params, body) \<Rightarrow>
               (let local_env = bind_params [(''self'', obj)] params args in
                if \<not> has_interpreter then Inl (PyException ''AttributeError'')
                else (case execute_block' st body local_env of
                        Inl e \<Rightarrow> Inl e
                      | Inr (v, _, st1) \<Rightarrow> Inr (v, st1))))
      | _ \<Rightarrow> Inl (PyException ''AttributeError''))"

definition execute_statement_body ::
  "host \<Rightarrow> expr_fun \<Rightarrow> state \<Rightarrow> string \<Rightarrow> env \<Rightarrow> error + (val \<times> env \<times> state)" where
  "execute_statement_body H eval_expression' st stmt0 local_env =
     (let stmt = strip stmt0 in
      if stmt = [] \<or> startswith stmt ''//'' then Inr (VNull, local_env, st)
      else
      (case (if startswith stmt ''let '' then let_match stmt else None) of
         Some (var_name, expr) \<Rightarrow>
           (case eval_expression' st expr local_env of
              Inl e \<Rightarrow> Inl e
            | Inr (v, st1) \<Rightarrow> Inr (v, AList.update var_name v local_env, st1))
       | None \<Rightarrow>
      (case assign_match stmt of
         Some (target, expr) \<Rightarrow>
           (case eval_expression' st expr local_env of
              Inl e \<Rightarrow> Inl e
            | Inr (v, st1) \<Rightarrow>
                if CHR ''.'' \<in> set target
                then (let parts = split_on (CHR ''.'') target;
                          obj_name = hd parts;
                          prop_path = tl parts
                      in case (case map_of local_env obj_name of
                                 Some obj \<Rightarrow> Some obj
                               | None \<Rightarrow> map_of (globals st1) obj_name) of
                           None \<Rightarrow> Inl (VariableNotFound obj_name)
                         | Some obj \<Rightarrow>
                             (case walk_props H st1 obj (butlast prop_path) of
                                Inl e \<Rightarrow> Inl e
                              | Inr current \<Rightarrow>
                                  (case py_setattr H st1 current (last prop_path) v of
                                     Inl e \<Rightarrow> Inl e
                                   | Inr st2 \<Rightarrow> Inr (v, local_env, st2))))
                else if map_of local_env target \<noteq> None
                then Inr (v, AList.update target v local_env, st1)
                else Inr (v, local_env, st1\<lparr>globals := AList.update target v (globals st1)\<rparr>))
       | None \<Rightarrow>
      if startswith stmt ''return ''
      then (case eval_expression' st (strip (drop 7 stmt)) local_env of
              Inl e \<Rightarrow> Inl e
            | Inr (v, st1) \<Rightarrow> Inr (v, local_env, st1))
      else
      (case (if startswith stmt ''if '' then if_match stmt else None) of
         Some cond \<Rightarrow>
           (case eval_expression' st cond local_env of
              Inl e \<Rightarrow> Inl e
            | Inr (condition, st1) \<Rightarrow> Inr (condition, local_env, st1))
       | None \<Rightarrow>
           (case eval_expression' st stmt local_env of
              Inl e \<Rightarrow> Inl e
            | Inr (v, st1) \<Rightarrow> Inr (v, local_env, st1))))))"

fun block_loop ::
  "host \<Rightarrow> stmt_fun \<Rightarrow> state \<Rightarrow> val \<Rightarrow> string list \<Rightarrow> env \<Rightarrow> error + (val \<times> env \<times> state)"
  where
  "block_loop H execute_statement' st result [] local_env = Inr (result, local_env, st)"
| "block_loop H execute_statement' st result (stmt # statements) local_env =
     (case execute_statement' st stmt local_env of
        Inl e \<Rightarrow> Inl e
      | Inr (r, env1, st1) \<Rightarrow>
          (case return_marker H r of
             Some (Inl e) \<Rightarrow> Inl e
           | Some (Inr v) \<Rightarrow> Inr (v, env1, st1)
           | None \<Rightarrow> block_loop H execute_statement' st1 r statements env1))"

fun eval_expression :: "host \<Rightarrow> nat \<Rightarrow> expr_fun"
and eval_function_call :: "host \<Rightarrow> nat \<Rightarrow> expr_fun"
and call_value :: "host \<Rightarrow> nat \<Rightarrow> call_fun"
and new_object :: "host \<Rightarrow> nat \<Rightarrow> new_fun"
and call_method :: "host \<Rightarrow> nat \<Rightarrow> method_fun"
and execute_statement :: "host \<Rightarrow> nat \<Rightarrow> stmt_fun"
and execute_block :: "host \<Rightarrow> nat \<Rightarrow> block_fun"
where
  "eval_expression H 0 = (\<lambda>st expr local_env. Inl recursion_error)"
| "eval_expression H (Suc n) =
     eval_expression_body H (eval_expression H n) (eval_function_call H n)"
| "eval_function_call H 0 = (\<lambda>st expr local_env. Inl recursion_error)"
| "eval_function_call H (Suc n) =
     eval_function_call_body H (eval_expression H n) (call_value H n) (call_method H n)
       (new_object H n)"
| "call_value H 0 = (\<lambda>st f args. Inl recursion_error)"
| "call_value H (Suc n) = call_value_body H (execute_block H n) (new_object H n)"
| "new_object H 0 = (\<lambda>st klass args. Inl recursion_error)"
| "new_object H (Suc n) = new_object_body H (call_method H n)"
| "call_method H 0 = (\<lambda>st obj method_name has_interpreter args. Inl recursion_error)"
| "call_method H (Suc n) = call_method_body H (execute_block H n)"
| "execute_statement H 0 = (\<lambda>st stmt local_env. Inl recursion_error)"
| "execute_statement H (Suc n) = execute_statement_body H (eval_expression H n)"
| "execute_block H 0 = (\<lambda>st statements local_env. Inl recursion_error)"
| "execute_block H (Suc n) =
     (\<lambda>st statements local_env.
        block_loop H (execute_statement H n) st VNull statements local_env)"

section \<open>The interpreter's parser, class loading and \<open>run\<close>\<close>

datatype pstmt =
    SClass string "string list"
  | SFunction string "string list" "string list"
  | SStmt string

definition brace_delta :: "string \<Rightarrow> int" where
  \<comment> \<open>\<open>current_line.count('{') - current_line.count('}')\<close>\<close>
  "brace_delta l = int (count_char (CHR ''{'') l) - int (count_char (CHR ''}'') l)"

fun collect_block :: "string list \<Rightarrow> nat \<Rightarrow> string list \<Rightarrow> int \<Rightarrow> string list \<times> nat" where
  \<comment> \<open>the loop \<open>while i < len(lines) and depth > 0\<close>, on the lines from index \<open>i\<close> on\<close>
  "collect_block [] i body depth = (body, i)"
| "collect_block (current_line # rest) i body depth =
     (if depth > 0
      then (let depth' = depth + brace_delta current_line
            in collect_block rest (i + 1)
                 (if depth' > 0 then body @ [current_line] else body) depth')
      else (body, i))"

definition parse_class :: "string list \<Rightarrow> nat \<Rightarrow> error + (pstmt \<times> nat)" where
  "parse_class lines start_index =
     (if start_index < length lines
      then (case class_match (lines ! start_index) of
              None \<Rightarrow> Inl InvalidClassDefinition
            | Some class_name \<Rightarrow>
                (case collect_block (drop (start_index + 1) lines) (start_index + 1) [] 1 of
                   (body, i) \<Rightarrow> Inr (SClass class_name body, i)))
      else Inl (PyException ''IndexError''))"

definition parse_function :: "string list \<Rightarrow> nat \<Rightarrow> error + (pstmt \<times> nat)" where
  "parse_function lines start_index =
     (if start_index < length lines
      then (case fn_match (lines ! start_index) of
              None \<Rightarrow> Inl InvalidFunctionDefinition
            | Some (fn_name, params_text) \<Rightarrow>
                (case collect_block (drop (start_index + 1) lines) (start_index + 1) [] 1 of
                   (body, i) \<Rightarrow> Inr (SFunction fn_name (split_params params_text) body, i)))
      else Inl (PyException ''IndexError''))"

function parse_loop :: "string list \<Rightarrow> nat \<Rightarrow> error + pstmt list" where
  "parse_loop lines i =
     (if i < length lines
      then (let line = lines ! i in
            if line = [] \<or> startswith line ''//'' then parse_loop lines (i + 1)
            else if startswith line ''class ''
            then (case parse_class lines i of
                    Inl e \<Rightarrow> Inl e
                  | Inr (class_stmt, j) \<Rightarrow>
                      (case parse_loop lines j of
                         Inl e \<Rightarrow> Inl e
                       | Inr statements \<Rightarrow> Inr (class_stmt # statements)))
            else if startswith line ''fn ''
            then (case parse_function lines i of
                    Inl e \<Rightarrow> Inl e
                  | Inr (fn_stmt, j) \<Rightarrow>
                      (case parse_loop lines j of
                         Inl e \<Rightarrow> Inl e
                       | Inr statements \<Rightarrow> Inr (fn_stmt # statements)))
            else (case parse_loop lines (i + 1) of
                    Inl e \<Rightarrow> Inl e
                  | Inr statements \<Rightarrow> Inr (SStmt line # statements)))
      else Inr [])"
  by pat_completeness auto
termination
proof -
  have idx: "i \<le> snd (collect_block ls i b d)" for ls i b d
    by (induction ls i b d rule: collect_block.induct) (auto simp: Let_def)
  have pc: "i < j" if "parse_class lines i = Inr (c, j)" for lines i c j
    using that idx [of "i + 1" "drop (i + 1) lines" "[]" 1]
    by (auto simp: parse_class_def split: option.splits prod.splits if_splits)
  have pf: "i < j" if "parse_function lines i = Inr (c, j)" for lines i c j
    using that idx [of "i + 1" "drop (i + 1) lines" "[]" 1]
    by (auto simp: parse_function_def split: option.splits prod.splits if_splits)
  show ?thesis
    by (relation "measure (\<lambda>(lines, i). length lines - i)")
       (auto dest!: pc pf)
qed

declare parse_loop.simps [simp del]

definition parse :: "string \<Rightarrow> error + pstmt list" where
  \<comment> \<open>\<open>KSPLInterpreter.parse\<close>\<close>
  "parse source = parse_loop (map strip (split_on newline source)) 0"

function load_loop ::
  "expr_fun \<Rightarrow> state \<Rightarrow> string list \<Rightarrow> nat \<Rightarrow>
   (string \<times> string list \<times> string list) list \<Rightarrow> env \<Rightarrow>
   error + ((string \<times> string list \<times> string list) list \<times> env \<times> state)" where
  \<comment> \<open>the loop of \<open>load_class\<close>; \<open>eval_expression'\<close> evaluates a field's default\<close>
  "load_loop eval_expression' st body i class_methods class_fields =
     (if i < length body
      then (let line = strip (body ! i) in
            if startswith line ''fn ''
            then (case fn_match line of
                    Some (method_name, params_text) \<Rightarrow>
                      (case collect_block (drop (i + 1) body) (i + 1) [] 1 of
                         (method_body, j) \<Rightarrow>
                           load_loop eval_expression' st body j
                             (AList.update method_name (split_params params_text, method_body)
                                class_methods)
                             class_fields)
                  | None \<Rightarrow> load_loop eval_expression' st body (i + 1) class_methods class_fields)
            else if startswith line ''field ''
            then (case field_match line of
                    Some (field_name, expr) \<Rightarrow>
                      (case eval_expression' st expr [] of
                         Inl e \<Rightarrow> Inl e
                       | Inr (field_value, st1) \<Rightarrow>
                           load_loop eval_expression' st1 body (i + 1) class_methods
                             (AList.update field_name field_value class_fields))
                  | None \<Rightarrow> load_loop eval_expression' st body (i + 1) class_methods class_fields)
            else load_loop eval_expression' st body (i + 1) class_methods class_fields)
      else Inr (class_methods, class_fields, st))"
  by pat_completeness auto
termination
proof -
  have idx: "i \<le> snd (collect_block ls i b d)" for ls i b d
    by (induction ls i b d rule: collect_block.induct) (auto simp: Let_def)
  have cb: "i < j" if "(mb, j) = collect_block (drop (Suc i) body) (Suc i) [] 1"
    for body :: "string list" and i j mb
    using idx [of "Suc i" "drop (Suc i) body" "[]" 1] that [symmetric] by simp
  show ?thesis
    by (relation "measure (\<lambda>(ev, st, body, i, class_methods, class_fields). length body - i)")
       (auto dest!: cb)
qed

declare load_loop.simps [simp del]

definition load_class :: "host \<Rightarrow> nat \<Rightarrow> state \<Rightarrow> string \<Rightarrow> string list \<Rightarrow> error + (kclass \<times> state)"
  where
  "load_class H fuel st class_name body =
     (case load_loop (eval_expression H fuel) st body 0 [] [] of
        Inl e \<Rightarrow> Inl e
      | Inr (class_methods, class_fields, st1) \<Rightarrow> Inr (KSPLClass class_name class_methods class_fields, st1))"

fun run_first_pass :: "host \<Rightarrow> nat \<Rightarrow> nat \<Rightarrow> state \<Rightarrow> pstmt list \<Rightarrow> error + state" where
  \<comment> \<open>the loop that loads the classes; \<open>c\<close> is the invocation of \<open>run\<close>\<close>
  "run_first_pass H fuel c st [] = Inr st"
| "run_first_pass H fuel c st (SClass class_name body # statements) =
     (let st0 = st\<lparr>frames := (frames st)[c := (fst (frames st ! c), body)]\<rparr> in
      case load_class H fuel st0 class_name body of
        Inl e \<Rightarrow> Inl e
      | Inr (klass, st1) \<Rightarrow>
          run_first_pass H fuel c
            (st1\<lparr>classes := AList.update class_name klass (classes st1),
                 globals := AList.update class_name (VCtor class_name) (globals st1)\<rparr>)
            statements)"
| "run_first_pass H fuel c st (_ # statements) = run_first_pass H fuel c st statements"

fun run_second_pass :: "host \<Rightarrow> nat \<Rightarrow> nat \<Rightarrow> state \<Rightarrow> pstmt list \<Rightarrow> error + state" where
  \<comment> \<open>the loop that executes the statements and registers the functions\<close>
  "run_second_pass H fuel c st [] = Inr st"
| "run_second_pass H fuel c st (SStmt line # statements) =
     (case execute_statement H fuel st line [] of
        Inl e \<Rightarrow> Inl e
      | Inr (_, _, st1) \<Rightarrow> run_second_pass H fuel c st1 statements)"
| "run_second_pass H fuel c st (SFunction fn_name params body # statements) =
     run_second_pass H fuel c
       (st\<lparr>frames := (frames st)[c := (params, body)],
           globals := AList.update fn_name (VFun c) (globals st)\<rparr>)
       statements"
| "run_second_pass H fuel c st (SClass _ _ # statements) =
     run_second_pass H fuel c st statements"

definition run :: "host \<Rightarrow> nat \<Rightarrow> state \<Rightarrow> string \<Rightarrow> error + state" where
  \<comment> \<open>\<open>KSPLInterpreter.run\<close>; the invocation gets a fresh pair of variables \<open>params\<close> and
      \<open>body\<close>, whose initial content is never read\<close>
  "run H fuel st source =
     (case parse source of
        Inl e \<Rightarrow> Inl e
      | Inr statements \<Rightarrow>
          (let c = length (frames st);
               st0 = st\<lparr>frames := frames st @ [([], [])]\<rparr>
           in case run_first_pass H fuel c st0 statements of
                Inl e \<Rightarrow> Inl e
              | Inr st1 \<Rightarrow> run_second_pass H fuel c st1 statements))"

section \<open>The compiler's tokenizer and parser\<close>

datatype token =
    CLASS_DEF string nat
  | FN_DEF string "string list" nat
  | FIELD_DEF string string nat
  | LET_DEF string string nat
  | ASSIGNMENT string string nat
  | RETURN string nat
  | IF_STMT string nat
  | ELSE_STMT nat
  | BRACE_CLOSE nat
  | EXPRESSION string nat
  | STATEMENT string nat

text \<open>
  A token is a dictionary with a \<open>type\<close>, a \<open>line\<close> and the entries of its type; the
  constructor is the type and the last argument the line.  \<open>BRACE_CLOSE\<close> is a type that
  the parser tests for and that \<open>tokenize\<close> never produces.
\<close>

fun token_line :: "token \<Rightarrow> nat" where
  "token_line (CLASS_DEF _ l) = l"
| "token_line (FN_DEF _ _ l) = l"
| "token_line (FIELD_DEF _ _ l) = l"
| "token_line (LET_DEF _ _ l) = l"
| "token_line (ASSIGNMENT _ _ l) = l"
| "token_line (RETURN _ l) = l"
| "token_line (IF_STMT _ l) = l"
| "token_line (ELSE_STMT l) = l"
| "token_line (BRACE_CLOSE l) = l"
| "token_line (EXPRESSION _ l) = l"
| "token_line (STATEMENT _ l) = l"

definition return_match :: "string \<Rightarrow> string option" where
  \<comment> \<open>\<open>return\s+(.*)\<close>\<close>
  "return_match s =
     (if \<not> startswith s ''return'' then None
      else let r = drop 6 s in
        if takeWhile isspace r = [] then None
        else Some (rest_of_line (dropWhile isspace r)))"

definition tok_if_match :: "string \<Rightarrow> string option" where
  \<comment> \<open>\<open>if\s+(.+)\s*\{\<close> on one line (a text without newline): the group ends before
      the last brace; when the last brace follows the white space at once, \<open>\s+\<close> gives
      its last character back to the group\<close>
  "tok_if_match s =
     (if \<not> startswith s ''if'' then None
      else let r = drop 2 s;
               m = length (takeWhile isspace r);
               r1 = drop m r in
        if m = 0 \<or> CHR ''{'' \<notin> set r1 then None
        else let k = length r1 - Suc (length (takeWhile (\<lambda>c. c \<noteq> CHR ''{'') (rev r1))) in
          if 1 \<le> k then Some (take k r1)
          else if 2 \<le> m then Some [r ! (m - 1)]
          else None)"

fun tokenize_loop :: "string list \<Rightarrow> nat \<Rightarrow> token list" where
  \<comment> \<open>the loop over the lines; \<open>continue\<close> goes to the next line with \<open>line_num\<close> as
      it is\<close>
  "tokenize_loop [] line_num = []"
| "tokenize_loop (l # lines) line_num =
     (let line = strip l in
      if line = [] \<or> startswith line ''//'' then tokenize_loop lines (line_num + 1)
      else
      (case class_match line of
         Some name \<Rightarrow> CLASS_DEF name line_num # tokenize_loop lines line_num
       | None \<Rightarrow>
      (case fn_match line of
         Some (name, params_text) \<Rightarrow>
           FN_DEF name (split_params params_text) line_num # tokenize_loop lines line_num
       | None \<Rightarrow>
      (case field_match line of
         Some (name, expr) \<Rightarrow> FIELD_DEF name expr line_num # tokenize_loop lines line_num
       | None \<Rightarrow>
      (case let_match line of
         Some (name, expr) \<Rightarrow> LET_DEF name expr line_num # tokenize_loop lines line_num
       | None \<Rightarrow>
      (case assign_match line of
         Some (target, expr) \<Rightarrow> ASSIGNMENT target expr line_num # tokenize_loop lines line_num
       | None \<Rightarrow>
      (case return_match line of
         Some expr \<Rightarrow> RETURN expr line_num # tokenize_loop lines line_num
       | None \<Rightarrow>
      (case tok_if_match line of
         Some condition \<Rightarrow> IF_STMT condition line_num # tokenize_loop lines line_num
       | None \<Rightarrow>
      if strip line = ''} else {'' then ELSE_STMT line_num # tokenize_loop lines line_num
      else if CHR ''('' \<in> set line \<and> endswith line '')''
      then EXPRESSION line line_num # tokenize_loop lines (line_num + 1)
      else STATEMENT line line_num # tokenize_loop lines (line_num + 1)))))))))"

definition tokenize :: "string \<Rightarrow> token list" where
  \<comment> \<open>\<open>KSPLCompiler.tokenize\<close>\<close>
  "tokenize source = tokenize_loop (split_on newline source) 1"

datatype node =
    Tok token
  | IfNode string "token list" "token list" nat

record method_decl =
  m_name :: string
  m_params :: "string list"
  m_body :: "node list"
  m_line :: nat

record class_decl =
  c_name :: string
  c_methods :: "(string \<times> method_decl) list"
  c_fields :: "(string \<times> string \<times> nat) list"
  c_line :: nat

record ast =
  ast_classes :: "(string \<times> class_decl) list"
  ast_global_code :: "node list"
  ast_imports :: "string list"

datatype compile_error = ReturnOutsideOfMethod

text \<open>
  In \<open>KSPLCompiler.parse\<close> the variables \<open>current_class\<close> and \<open>current_method\<close> refer to
  dictionaries stored in the tree: \<open>current_class\<close> is always the entry of its name in
  \<open>ast['classes']\<close>, and \<open>current_method\<close> the entry of its name in the methods of
  \<open>current_class\<close> (a class header resets it).  They are modelled by these names, and an
  update through them is an update of the tree.
\<close>

definition update_class :: "string \<Rightarrow> (class_decl \<Rightarrow> class_decl) \<Rightarrow> ast \<Rightarrow> ast" where
  "update_class cn f a =
     a\<lparr>ast_classes := map (\<lambda>(k, c). if k = cn then (k, f c) else (k, c)) (ast_classes a)\<rparr>"

definition add_method :: "string \<Rightarrow> method_decl \<Rightarrow> ast \<Rightarrow> ast" where
  \<comment> \<open>\<open>current_class['methods'][method_name] = current_method\<close>\<close>
  "add_method cn m a =
     update_class cn (\<lambda>c. c\<lparr>c_methods := AList.update (m_name m) m (c_methods c)\<rparr>) a"

definition add_field :: "string \<Rightarrow> string \<Rightarrow> string \<times> nat \<Rightarrow> ast \<Rightarrow> ast" where
  \<comment> \<open>\<open>current_class['fields'][field_name] = {...}\<close>\<close>
  "add_field cn fname fd a =
     update_class cn (\<lambda>c. c\<lparr>c_fields := AList.update fname fd (c_fields c)\<rparr>) a"

definition append_body :: "string \<Rightarrow> string \<Rightarrow> node \<Rightarrow> ast \<Rightarrow> ast" where
  \<comment> \<open>\<open>current_method['body'].append(node)\<close>\<close>
  "append_body cn mn nd a =
     update_class cn
       (\<lambda>c. c\<lparr>c_methods :=
               map (\<lambda>(k, m). if k = mn then (k, m\<lparr>m_body := m_body m @ [nd]\<rparr>) else (k, m))
                 (c_methods c)\<rparr>) a"

definition emit :: "string option \<Rightarrow> string option \<Rightarrow> node \<Rightarrow> ast \<Rightarrow> ast" where
  \<comment> \<open>append to the body of the current method if there is one, else to the global code\<close>
  "emit current_class current_method nd a =
     (case (current_class, current_method) of
        (Some cn, Some mn) \<Rightarrow> append_body cn mn nd a
      | _ \<Rightarrow> a\<lparr>ast_global_code := ast_global_code a @ [nd]\<rparr>)"

definition is_else :: "token \<Rightarrow> bool" where
  "is_else t = (case t of ELSE_STMT _ \<Rightarrow> True | _ \<Rightarrow> False)"

definition is_brace_close :: "token \<Rightarrow> bool" where
  "is_brace_close t = (case t of BRACE_CLOSE _ \<Rightarrow> True | _ \<Rightarrow> False)"

function compile_parse_loop ::
  "token list \<Rightarrow> ast \<Rightarrow> string option \<Rightarrow> string option \<Rightarrow> compile_error + ast" where
  "compile_parse_loop [] a current_class current_method = Inr a"
| "compile_parse_loop (CLASS_DEF class_name l # ts) a current_class current_method =
     compile_parse_loop ts
       (a\<lparr>ast_classes :=
            AList.update class_name
              \<lparr>c_name = class_name, c_methods = [], c_fields = [], c_line = l\<rparr>
              (ast_classes a)\<rparr>)
       (Some class_name) None"
| "compile_parse_loop (FN_DEF method_name params l # ts) a current_class current_method =
     (case current_class of
        Some cn \<Rightarrow>
          compile_parse_loop ts
            (add_method cn
               \<lparr>m_name = method_name, m_params = params, m_body = [], m_line = l\<rparr> a)
            current_class (Some method_name)
      | None \<Rightarrow> compile_parse_loop ts a current_class current_method)"
| "compile_parse_loop (FIELD_DEF field_name expr l # ts) a current_class current_method =
     (case current_class of
        Some cn \<Rightarrow>
          compile_parse_loop ts (add_field cn field_name (expr, l) a)
            current_class current_method
      | None \<Rightarrow> compile_parse_loop ts a current_class current_method)"
| "compile_parse_loop (LET_DEF x e l # ts) a current_class current_method =
     compile_parse_loop ts (emit current_class current_method (Tok (LET_DEF x e l)) a)
       current_class current_method"
| "compile_parse_loop (ASSIGNMENT x e l # ts) a current_class current_method =
     compile_parse_loop ts (emit current_class current_method (Tok (ASSIGNMENT x e l)) a)
       current_class current_method"
| "compile_parse_loop (EXPRESSION e l # ts) a current_class current_method =
     compile_parse_loop ts (emit current_class current_method (Tok (EXPRESSION e l)) a)
       current_class current_method"
| "compile_parse_loop (STATEMENT e l # ts) a current_class current_method =
     compile_parse_loop ts (emit current_class current_method (Tok (STATEMENT e l)) a)
       current_class current_method"
| "compile_parse_loop (RETURN e l # ts) a current_class current_method =
     (if current_method \<noteq> None
      then compile_parse_loop ts (emit current_class current_method (Tok (RETURN e l)) a)
             current_class current_method
      else Inl ReturnOutsideOfMethod)"
| "compile_parse_loop (IF_STMT condition l # ts) a current_class current_method =
     (let then_branch = takeWhile (\<lambda>t. \<not> is_else t \<and> \<not> is_brace_close t) ts;
          ts1 = dropWhile (\<lambda>t. \<not> is_else t \<and> \<not> is_brace_close t) ts;
          has_else = (case ts1 of t # _ \<Rightarrow> is_else t | [] \<Rightarrow> False);
          else_branch = (if has_else then takeWhile (\<lambda>t. \<not> is_brace_close t) (tl ts1) else []);
          ts2 = (if has_else then dropWhile (\<lambda>t. \<not> is_brace_close t) (tl ts1) else ts1)
      in compile_parse_loop (drop 1 ts2)
           (emit current_class current_method (IfNode condition then_branch else_branch l) a)
           current_class current_method)"
| "compile_parse_loop (ELSE_STMT l # ts) a current_class current_method =
     compile_parse_loop ts a current_class current_method"
| "compile_parse_loop (BRACE_CLOSE l # ts) a current_class current_method =
     compile_parse_loop ts a current_class current_method"
  by pat_completeness auto
termination
proof -
  have dw: "length (dropWhile P xs) - Suc 0 < Suc (length xs)" for P and xs :: "token list"
    using length_dropWhile_le [of P xs] by simp
  have tl_dw: "length (dropWhile P (tl (dropWhile Q xs))) - Suc 0 < Suc (length xs)"
    for P Q and xs :: "token list"
    using length_dropWhile_le [of P "tl (dropWhile Q xs)"] length_dropWhile_le [of Q xs]
    by simp
  show ?thesis
    by (relation "measure (\<lambda>(ts, a, cc, cm). length ts)") (auto simp: dw tl_dw)
qed

definition compile_parse :: "token list \<Rightarrow> compile_error + ast" where
  \<comment> \<open>\<open>KSPLCompiler.parse\<close>\<close>
  "compile_parse tokens =
     compile_parse_loop tokens \<lparr>ast_classes = [], ast_global_code = [], ast_imports = []\<rparr>
       None None"

section \<open>Reference definitions taken from the specification\<close>

text \<open>
  The specification asks that a call's argument text be cut at the commas that are at
  parenthesis depth zero and outside string literals.  \<open>scan_step\<close> reads one character
  and keeps the parenthesis depth and the quote that is open, if any;
  \<open>spec_top_level_commas\<close> lists the positions of the commas before which the depth is
  zero and no quote is open; \<open>segments_from\<close> cuts a text at given positions; and
  \<open>spec_split_arguments\<close> is the list of the stripped pieces, without a last piece that
  is empty.
\<close>

fun scan_step :: "int \<times> char option \<Rightarrow> char \<Rightarrow> int \<times> char option" where
  "scan_step (d, q) c =
     (if c = dquote \<or> c = squote then
        (case q of
           None \<Rightarrow> (d, Some c)
         | Some q' \<Rightarrow> if q' = c then (d, None) else (d, q))
      else if q = None \<and> c = CHR ''('' then (d + 1, q)
      else if q = None \<and> c = CHR '')'' then (d - 1, q)
      else (d, q))"

definition spec_top_level_commas :: "int \<times> char option \<Rightarrow> string \<Rightarrow> nat list" where
  "spec_top_level_commas s0 text =
     filter (\<lambda>i. text ! i = CHR '','' \<and> foldl scan_step s0 (take i text) = (0, None))
       [0..<length text]"

fun segments_from :: "nat \<Rightarrow> nat list \<Rightarrow> string \<Rightarrow> string list" where
  "segments_from a [] text = [drop a text]"
| "segments_from a (p # ps) text = take (p - a) (drop a text) # segments_from (Suc p) ps text"

definition spec_split_arguments :: "string \<Rightarrow> string list" where
  "spec_split_arguments text =
     (let segs = segments_from 0 (spec_top_level_commas (0, None) text) text
      in map strip (if last segs = [] then butlast segs else segs))"







definition call_arguments :: "expr_fun \<Rightarrow> state \<Rightarrow> string \<Rightarrow> env \<Rightarrow> error + (val list \<times> state)"
  where
  "call_arguments eval_expression' st group2 local_env =
     (if strip group2 \<noteq> []
      then eval_args eval_expression' st (split_arguments (strip group2)) local_env
      else Inr ([], st))"


text \<open>
  A host that provides nothing, for the evaluation of closed examples: the \<open>eval\<close>
  fallback fails, a value has no attribute beyond its own fields, no host value is a
  dictionary, and a call of a host function returns \<open>None\<close> and changes nothing.
\<close>

definition bare_host :: host where
  "bare_host =
     \<lparr>h_eval = (\<lambda>st local_env expr. None),
      h_getattr = (\<lambda>st obj prop. None),
      h_item = (\<lambda>st obj prop. None),
      h_callable = (\<lambda>h. True),
      h_call = (\<lambda>st f args. Inr (VNull, st)),
      h_setattr = (\<lambda>st obj prop v. Inl (PyException ''AttributeError'')),
      h_return = (\<lambda>h. None)\<rparr>"

definition source_of_lines :: "string list \<Rightarrow> string" where
  \<comment> \<open>the lines of a program, each ended by a newline\<close>
  "source_of_lines ls = concat (map (\<lambda>l. l @ [newline]) ls)"

section \<open>Argument splitting\<close>

lemma spec_top_level_commas_Nil: "spec_top_level_commas s0 [] = []"
  by (simp add: spec_top_level_commas_def)

lemma spec_top_level_commas_Cons:
  "spec_top_level_commas s0 (c # cs) =
     (if c = CHR '','' \<and> s0 = (0, None) then [0] else []) @
     map Suc (spec_top_level_commas (scan_step s0 c) cs)"
proof -
  have u: "[0..<length (c # cs)] = 0 # map Suc [0..<length cs]"
    by (simp add: upt_conv_Cons map_Suc_upt del: upt_Suc)
  show ?thesis
    unfolding spec_top_level_commas_def u
    by (simp add: filter_map comp_def)
qed

lemma segments_from_nonempty: "segments_from a ps text \<noteq> []"
  by (cases ps) simp_all

lemma segments_from_shift:
  "segments_from (length pre + a) (map ((+) (length pre)) ps) (pre @ text) =
   segments_from a ps text"
proof (induction ps arbitrary: a)
  case Nil
  then show ?case by simp
next
  case (Cons p ps)
  have "segments_from (Suc (length pre + p)) (map ((+) (length pre)) ps) (pre @ text)
        = segments_from (Suc p) ps text"
    using Cons.IH [of "Suc p"] by simp
  then show ?case by simp
qed

lemma split_loop_keep:
  "in_string = (string_char \<noteq> None) \<Longrightarrow>
   \<not> (c = CHR '','' \<and> depth = 0 \<and> string_char = None) \<Longrightarrow>
   split_loop (c # cs) args current depth in_string string_char =
     split_loop cs args (current @ [c]) (fst (scan_step (depth, string_char) c))
       (snd (scan_step (depth, string_char) c) \<noteq> None) (snd (scan_step (depth, string_char) c))"
  by (auto simp: dquote_def squote_def split: option.splits)

lemma split_loop_cut:
  "split_loop (CHR '','' # cs) args current 0 False None =
     split_loop cs (args @ [strip current]) [] 0 False None"
  by (simp add: dquote_def squote_def)

lemma scan_step_comma: "scan_step s0 (CHR '','') = s0"
  by (cases s0) (simp add: dquote_def squote_def)

lemma split_loop_segments:
  "in_string = (string_char \<noteq> None) \<Longrightarrow>
   split_loop cs args current depth in_string string_char =
     (let S = segments_from 0
                (map ((+) (length current)) (spec_top_level_commas (depth, string_char) cs))
                (current @ cs)
      in (args @ map strip (butlast S), last S))"
proof (induction cs arbitrary: args current depth in_string string_char)
  case Nil
  then show ?case by (simp add: spec_top_level_commas_Nil)
next
  case (Cons c cs)
  show ?case
  proof (cases "c = CHR '','' \<and> depth = 0 \<and> string_char = None")
    case True
    then have ins: "in_string = False" using Cons.prems by simp
    let ?T = "segments_from 0 (spec_top_level_commas (0, None) cs) cs"
    have ih: "split_loop cs (args @ [strip current]) [] 0 False None =
                ((args @ [strip current]) @ map strip (butlast ?T), last ?T)"
      using Cons.IH [of False None "args @ [strip current]" "[]" 0] by (simp add: Let_def)
    have pos: "map ((+) (length current)) (spec_top_level_commas (depth, string_char) (c # cs)) =
                 length current #
                 map ((+) (length (current @ [c]))) (spec_top_level_commas (0, None) cs)"
      using True by (simp add: spec_top_level_commas_Cons scan_step_comma)
    have shift: "segments_from (length (current @ [c]) + 0)
                   (map ((+) (length (current @ [c]))) (spec_top_level_commas (0, None) cs))
                   ((current @ [c]) @ cs) = ?T"
      by (rule segments_from_shift)
    have seg: "segments_from 0
                 (map ((+) (length current))
                    (spec_top_level_commas (depth, string_char) (c # cs)))
                 (current @ c # cs) = current # ?T"
      using shift unfolding pos by simp
    have ne: "?T \<noteq> []" by (rule segments_from_nonempty)
    have eq: "split_loop (c # cs) args current depth in_string string_char =
                split_loop cs (args @ [strip current]) [] 0 False None"
      using True ins by (simp only: split_loop_cut)
    show ?thesis
      unfolding seg Let_def eq ih using ne by simp
  next
    case False
    obtain d' q' where s: "scan_step (depth, string_char) c = (d', q')"
      by (cases "scan_step (depth, string_char) c")
    have step: "split_loop (c # cs) args current depth in_string string_char =
                  split_loop cs args (current @ [c]) d' (q' \<noteq> None) q'"
      using split_loop_keep [OF Cons.prems False, of cs args current] unfolding s by simp
    have nocut: "\<not> (c = CHR '','' \<and> (depth, string_char) = (0, None))"
      using False by simp
    have pos: "map ((+) (length current)) (spec_top_level_commas (depth, string_char) (c # cs)) =
                 map ((+) (length (current @ [c]))) (spec_top_level_commas (d', q') cs)"
      unfolding spec_top_level_commas_Cons s using nocut by simp
    have e: "(+) (Suc (length current)) = (\<lambda>a. Suc (length current + a))"
      by (rule ext) simp
    show ?thesis
      unfolding step pos
      using Cons.IH [of "q' \<noteq> None" q' args "current @ [c]" d'] by (simp add: e)
  qed
qed

lemma map_plus_zero: "map ((+) (0::nat)) xs = xs"
  by (induction xs) simp_all

lemma split_arguments_refines_spec: "split_arguments args_text = spec_split_arguments args_text"
proof -
  let ?S = "segments_from 0 (spec_top_level_commas (0, None) args_text) args_text"
  have loop: "split_loop args_text [] [] 0 False None = (map strip (butlast ?S), last ?S)"
    using split_loop_segments [where cs = args_text and args = "[]" and current = "[]"
        and depth = 0 and in_string = False and string_char = None]
    by (simp add: Let_def map_plus_zero)
  have ne: "?S \<noteq> []" by (rule segments_from_nonempty)
  have "map strip (butlast ?S @ [last ?S]) = map strip ?S"
    using ne by simp
  then have "map strip (butlast ?S) @ [strip (last ?S)] = map strip ?S"
    by simp
  then show ?thesis
    by (simp add: split_arguments_def spec_split_arguments_def loop Let_def)
qed

lemma call_example_arguments:
  \<open>call_match ''f(g(1,2), "a,b", 3)'' = Some (''f'', ''g(1,2), "a,b", 3'') \<and>
   split_arguments (strip ''g(1,2), "a,b", 3'') = [''g(1,2)'', ''"a,b"'', ''3'']\<close>
  by code_simp

text \<open>
  Claim C7.  \<open>split_arguments\<close> cuts the argument text exactly at the commas that stand at
  parenthesis depth zero and outside string literals: its result is the list of the
  stripped pieces between those commas (a last piece that is empty is dropped).  The
  argument text that \<open>eval_function_call\<close> extracts from \<open>f(g(1,2), "a,b", 3)\<close> is split
  into the three arguments \<open>g(1,2)\<close>, \<open>"a,b"\<close> and \<open>3\<close>.
\<close>

theorem split_arguments_top_level_commas:
  \<open>split_arguments args_text = spec_split_arguments args_text \<and>
   call_match ''f(g(1,2), "a,b", 3)'' = Some (''f'', ''g(1,2), "a,b", 3'') \<and>
   split_arguments (strip ''g(1,2), "a,b", 3'') = [''g(1,2)'', ''"a,b"'', ''3'']\<close>
  using split_arguments_refines_spec call_example_arguments by simp


section \<open>The \<open>return\<close> statement\<close>

lemma literal_facts:
  "strip ''1'' = ''1''" "startswith ''1'' [dquote] = False" "startswith ''1'' [squote] = False"
  "is_int_literal ''1''" "int_of_literal ''1'' = 1"
  "strip ''2'' = ''2''" "startswith ''2'' [dquote] = False" "startswith ''2'' [squote] = False"
  "is_int_literal ''2''" "int_of_literal ''2'' = 2"
  by code_simp+

lemma eval_literal_1: "eval_expression H (Suc n) st ''1'' env = Inr (VInt 1, st)"
  by (simp add: eval_expression_body_def literal_facts)

lemma eval_literal_2: "eval_expression H (Suc n) st ''2'' env = Inr (VInt 2, st)"
  by (simp add: eval_expression_body_def literal_facts)

lemma return_stmt_facts:
  "strip ''return 1'' = ''return 1''" "startswith ''return 1'' ''//'' = False"
  "startswith ''return 1'' ''let '' = False" "assign_match ''return 1'' = None"
  "startswith ''return 1'' ''return ''"
  "strip ''return 2'' = ''return 2''" "startswith ''return 2'' ''//'' = False"
  "startswith ''return 2'' ''let '' = False" "assign_match ''return 2'' = None"
  "startswith ''return 2'' ''return ''"
  by code_simp+

lemma exec_return_1:
  "execute_statement H (Suc (Suc n)) st ''return 1'' env = Inr (VInt 1, env, st)"
  by (simp add: execute_statement_body_def return_stmt_facts literal_facts eval_literal_1
           del: eval_expression.simps)

lemma exec_return_2:
  "execute_statement H (Suc (Suc n)) st ''return 2'' env = Inr (VInt 2, env, st)"
  by (simp add: execute_statement_body_def return_stmt_facts literal_facts eval_literal_2
           del: eval_expression.simps)

text \<open>
  Claim C1 says that a \<open>return\<close> statement ends the call with its value.  In the code
  \<open>execute_statement\<close> gives back the bare value of the expression, \<open>execute_block\<close> looks
  for a dictionary with a \<open>__return__\<close> entry, which no statement builds, and so the
  block goes on: the body \<open>return 1; return 2\<close> yields 2, under every host and in every
  state; the function \<open>f\<close> below, called from the top level, executes the assignment
  after its \<open>return 1\<close> and hands 2 to its caller, and so does the method \<open>m\<close>.
\<close>

theorem return_does_not_end_the_call:
  "execute_block H (Suc (Suc (Suc n))) st [''return 1'', ''return 2''] env =
     Inr (VInt 2, env, st) \<and>
   (case run bare_host 10 init_state
           (source_of_lines [''fn f() {'', ''return 1'', ''y = 2'', ''}'', ''r = f()'']) of
      Inr st' \<Rightarrow> (map_of (globals st') ''r'', map_of (globals st') ''y'')
    | Inl e \<Rightarrow> (None, None)) = (Some (VInt 2), Some (VInt 2)) \<and>
   (case run bare_host 10 init_state
           (source_of_lines [''class K {'', ''fn m() {'', ''return 1'', ''return 2'', ''}'', ''}'',
              ''k = K()'', ''r = k.m()'']) of
      Inr st' \<Rightarrow> map_of (globals st') ''r''
    | Inl e \<Rightarrow> None) = Some (VInt 2)"
proof -
  have block: "execute_block H (Suc (Suc (Suc n))) st [''return 1'', ''return 2''] env =
                 Inr (VInt 2, env, st)"
    by (simp add: exec_return_1 exec_return_2 return_marker_def del: execute_statement.simps)
  have prog: "(case run bare_host 10 init_state
           (source_of_lines [''fn f() {'', ''return 1'', ''y = 2'', ''}'', ''r = f()'']) of
      Inr st' \<Rightarrow> (map_of (globals st') ''r'', map_of (globals st') ''y'')
    | Inl e \<Rightarrow> (None, None)) = (Some (VInt 2), Some (VInt 2))"
    by code_simp
  have meth: "(case run bare_host 10 init_state
           (source_of_lines [''class K {'', ''fn m() {'', ''return 1'', ''return 2'', ''}'', ''}'',
              ''k = K()'', ''r = k.m()'']) of
      Inr st' \<Rightarrow> map_of (globals st') ''r''
    | Inl e \<Rightarrow> None) = Some (VInt 2)"
    by code_simp
  show ?thesis using block prog meth by (intro conjI)
qed

section \<open>The \<open>if\<close> statement\<close>

text \<open>
  Claim C2 says that an \<open>if\<close>/\<open>else\<close> executes exactly one branch.  In the code the
  statement evaluates its condition and returns it; the lines of both branches, the
  \<open>} else {\<close> line and the closing brace are ordinary statements of the block.  So the
  function whose body is the conditional of the claim does not return 1: with the
  condition in parentheses the call fails on the condition, without them it executes
  \<open>return 1\<close> and then fails on the line \<open>} else {\<close>; and the conditional written on
  one line yields the value of its condition.  The compiler's parser does build the two
  branches, and ends them at a closing-brace token that the scanner never produces: the
  else branch runs to the end of the input and takes the next method with it.
\<close>

theorem if_else_selects_no_branch:
  "run bare_host 10 init_state
     (source_of_lines [''fn f() {'', ''if (true) {'', ''return 1'', ''} else {'', ''return 2'',
        ''}'', ''}'', ''r = f()'']) = Inl (InvalidFunctionCall ''(true)'') \<and>
   run bare_host 10 init_state
     (source_of_lines [''fn f() {'', ''if true {'', ''return 1'', ''} else {'', ''return 2'',
        ''}'', ''}'', ''r = f()'']) = Inl (CouldNotEvaluate ''} else {'') \<and>
   (case execute_block bare_host 10 init_state [''if false { return 1 } else { return 2 }''] [] of
      Inr (v, env', st') \<Rightarrow> Some v
    | Inl e \<Rightarrow> None) = Some (VBool False) \<and>
   (case compile_parse (tokenize (source_of_lines
           [''class A {'', ''fn m() {'', ''if c {'', ''return 1'', ''} else {'', ''return 2'', ''}'',
            ''}'', ''fn k() {'', ''return 3'', ''}'', ''}''])) of
      Inr a \<Rightarrow> map (\<lambda>(cn, cd). map (\<lambda>(mn, md). (mn, m_body md)) (c_methods cd)) (ast_classes a)
    | Inl e \<Rightarrow> []) =
     [[(''m'', [IfNode ''c '' [RETURN ''1'' 1]
                 [RETURN ''2'' 1, STATEMENT ''}'' 1, STATEMENT ''}'' 2, FN_DEF ''k'' [] 3,
                  RETURN ''3'' 3, STATEMENT ''}'' 3, STATEMENT ''}'' 4] 1])]]"
  by code_simp

section \<open>Construction of an instance\<close>

text \<open>
  Claim C3 says that constructing an instance of a class with an \<open>init\<close> method runs
  \<open>init\<close>.  \<open>KSPLObject.__init__\<close> calls \<open>call_method\<close> with \<open>None\<close> as the interpreter,
  and \<open>call_method\<close> calls \<open>execute_block\<close> on it: the construction of \<open>Counter(5)\<close> stops
  with \<open>AttributeError\<close>, no instance is created and \<open>inc\<close> is never reached.
\<close>

theorem counter_construction_fails:
  "run bare_host 10 init_state
     (source_of_lines [''class Counter {'', ''field n = 0'', ''fn init(start) {'',
        ''self.n = start'', ''}'', ''fn inc() {'', ''self.n = self.n + 1'', ''return self.n'',
        ''}'', ''}'', ''c = Counter(5)'']) = Inl (PyException ''AttributeError'')"
  by code_simp

lemma construction_with_init_fails:
  assumes init: "map_of (cmethods klass) ''init'' \<noteq> None"
  shows "\<exists>e. new_object H n st klass args = Inl e"
proof (cases n)
  case 0
  then show ?thesis by simp
next
  case (Suc m)
  have cm: "\<exists>e. call_method H m st' obj ''init'' False args = Inl e" for st' obj
    by (cases m) (auto simp: call_method_body_def Let_def split: option.splits val.splits)
  show ?thesis
    using init Suc cm [of "st\<lparr>heap := heap st @
        [dict_update [(''_klass'', VClass klass)] (cfields klass)]\<rparr>" "VObj (length (heap st))"]
    by (auto simp: new_object_body_def Let_def simp del: call_method.simps)
qed

section \<open>Line numbers of tokens\<close>

text \<open>
  Claim C9 says that every token carries the number of the line it stands on.  The
  scanner is total, and each line that is neither blank nor a comment gives one token,
  but \<open>line_num\<close> is incremented only after a blank line, a comment, an expression or a
  generic statement: every recognised header, declaration, assignment, \<open>return\<close>,
  \<open>if\<close> and \<open>else\<close> leaves it as it is.  The call on the second line of the source below
  is recorded on line 1.
\<close>

theorem tokenize_line_number_stalls:
  "tokenize (source_of_lines [''let x = 1'', ''print(x)'']) =
     [LET_DEF ''x'' ''1'' 1, EXPRESSION ''print(x)'' 1]"
  by code_simp

section \<open>Method calls with missing arguments\<close>




lemma method_call_passes_interpreter:
  assumes "call_match expr = Some (fn_name, group2)"
    and "CHR ''.'' \<in> set fn_name"
    and "call_arguments (eval_expression H n) st group2 local_env = Inr (args, st1)"
    and "eval_expression H n st1 (hd (split_on (CHR ''.'') fn_name)) local_env =
           Inr (VObj a, st2)"
    and "py_getattr H st2 (VObj a) (split_on (CHR ''.'') fn_name ! 1) = None"
    and "py_getattr H st2 (VObj a) ''_klass'' = Some (VClass k)"
    and "map_of (cmethods k) (split_on (CHR ''.'') fn_name ! 1) \<noteq> None"
  shows "eval_function_call H (Suc n) st expr local_env =
           call_method H n st2 (VObj a) (split_on (CHR ''.'') fn_name ! 1) True args"
  using assms
  by (auto simp: eval_function_call_body_def call_arguments_def Let_def
           simp del: call_method.simps split: if_splits)



section \<open>Plain assignment\<close>

lemma char_class_facts:
  "isworddot CHR ''l''" "isworddot CHR ''e''" "isworddot CHR ''t''"
  "\<not> isworddot CHR '' ''" "isspace CHR '' ''" "\<not> isword CHR ''=''"
  "\<not> isworddot CHR ''/''"
  by code_simp+

lemma assign_match_nonempty:
  assumes "assign_match s = Some (target, expr)"
  shows "s \<noteq> []" and "\<not> startswith s ''//''"
proof -
  from assms have t: "takeWhile isworddot s \<noteq> []"
    by (auto simp: assign_match_def Let_def split: if_splits)
  then show "s \<noteq> []" by auto
  from t obtain c r where s: "s = c # r" and c: "isworddot c"
    by (cases s) (auto split: if_splits)
  show "\<not> startswith s ''//''"
    using s c char_class_facts(7) by (auto simp: startswith_def)
qed

lemma assign_match_not_let:
  assumes "assign_match s = Some (target, expr)"
  shows "(if startswith s ''let '' then let_match s else None) = None"
proof (cases "startswith s ''let ''")
  case False
  then show ?thesis by simp
next
  case True
  then obtain r where s: "s = ''let '' @ r"
    by (metis append_take_drop_id startswith_def)
  have tw: "takeWhile isworddot s = ''let''" and dw: "dropWhile isworddot s = CHR '' '' # r"
    using char_class_facts by (simp_all add: s)
  from assms obtain e where "eq_rhs (CHR '' '' # r) = Some e"
    by (auto simp: assign_match_def Let_def tw dw split: if_splits option.splits)
  then obtain r' where eq: "dropWhile isspace r = CHR ''='' # r'"
    using char_class_facts(5)
    by (auto simp: eq_rhs_def split: list.splits if_splits)
  have "let_match s = None"
    using char_class_facts(5,6)
    by (simp add: let_match_def keyword_def_match_def startswith_def s eq Let_def)
  then show ?thesis by simp
qed

lemma execute_plain_assignment:
  assumes am: "assign_match (strip stmt) = Some (target, expr)"
    and nodot: "CHR ''.'' \<notin> set target"
    and ev: "eval_expression H n st expr local_env = Inr (v, st1)"
  shows "execute_statement H (Suc n) st stmt local_env =
           (if map_of local_env target \<noteq> None
            then Inr (v, AList.update target v local_env, st1)
            else Inr (v, local_env, st1\<lparr>globals := AList.update target v (globals st1)\<rparr>))"
  using assign_match_nonempty [OF am] assign_match_not_let [OF am] am nodot ev
  by (simp add: execute_statement_body_def Let_def del: eval_expression.simps)

lemma assign_x_facts:
  "assign_match (strip ''x = 1'') = Some (''x'', ''1'')"
  "assign_match (strip ''print = 5'') = Some (''print'', ''5'')"
  "strip ''5'' = ''5''" "startswith ''5'' [dquote] = False" "startswith ''5'' [squote] = False"
  "is_int_literal ''5''" "int_of_literal ''5'' = 5" "map_of setup_builtins ''print'' \<noteq> None"
  by code_simp+

lemma eval_literal_5: "eval_expression H (Suc n) st ''5'' env = Inr (VInt 5, st)"
  by (simp add: eval_expression_body_def assign_x_facts)

text \<open>
  Claim C5 says that a plain assignment to a name that no scope binds creates the
  binding in the innermost scope.  The code writes it to the global dictionary: in a call
  scope that binds only \<open>y\<close>, the statement \<open>x = 1\<close> leaves the scope as it is and binds
  \<open>x\<close> globally.
\<close>

theorem unbound_assignment_goes_global:
  "(case execute_statement bare_host 3 init_state ''x = 1'' [(''y'', VInt 0)] of
      Inr (v, local_env', st') \<Rightarrow> (map_of local_env' ''x'', map_of (globals st') ''x'')
    | Inl e \<Rightarrow> (None, None)) = (None, Some (VInt 1))"
  by code_simp

text \<open>
  Claim C5 as amended.  For every plain (undotted) assignment \<open>name = expr\<close> whose
  expression evaluates to a value, the local scope of the call is tried first and then the
  global scope: if the local scope binds \<open>name\<close> that binding is updated, otherwise the
  value is stored under \<open>name\<close> in the global scope, which updates the global binding if
  there is one and creates it if there is none.  The local scope gets no new binding.
\<close>

theorem plain_assignment_scopes:
  assumes "assign_match (strip stmt) = Some (name, expr)"
    and "CHR ''.'' \<notin> set name"
    and "eval_expression H n st expr local_env = Inr (v, st1)"
  shows "execute_statement H (Suc n) st stmt local_env =
           (if map_of local_env name \<noteq> None
            then Inr (v, AList.update name v local_env, st1)
            else Inr (v, local_env, st1\<lparr>globals := AList.update name v (globals st1)\<rparr>))"
  using assms by (rule execute_plain_assignment)

theorem plain_assignment_scopes_witness:
  "execute_statement bare_host (Suc (Suc 0)) init_state ''x = 1'' [(''y'', VInt 0)] =
     Inr (VInt 1, [(''y'', VInt 0)],
          init_state\<lparr>globals := AList.update ''x'' (VInt 1) (globals init_state)\<rparr>)"
proof -
  have h1: "assign_match (strip ''x = 1'') = Some (''x'', ''1'')"
    by (rule assign_x_facts)
  have h2: "CHR ''.'' \<notin> set ''x''"
    by simp
  have h3: "eval_expression bare_host (Suc 0) init_state ''1'' [(''y'', VInt 0)] =
              Inr (VInt 1, init_state)"
    by (rule eval_literal_1)
  have "map_of [(''y'', VInt 0)] ''x'' = None"
    by simp
  with plain_assignment_scopes [OF h1 h2 h3] show ?thesis
    by simp
qed

section \<open>The builtin registry\<close>

text \<open>
  Claim C6 says that no KSPL statement can change what a builtin name is bound to.  The
  builtins are entries of the global dictionary, and a plain assignment writes there:
  after the one-line program \<open>print = 5\<close> the name \<open>print\<close> is bound to 5.
\<close>

theorem builtin_is_overwritten:
  "map_of (globals init_state) ''print'' = Some (VHost ''print'') \<and>
   (case run bare_host 10 init_state (source_of_lines [''print = 5'']) of
      Inr st' \<Rightarrow> map_of (globals st') ''print''
    | Inl e \<Rightarrow> None) = Some (VInt 5)"
  by code_simp

text \<open>
  Claim C6 as amended.  The builtin registry is seeded at startup into the global
  namespace, and it is not read-only: a plain assignment to a builtin name, executed where
  no local binding of that name exists (as at the top level), rebinds the name to the
  value of the expression.  The statement leaves every other global binding as the
  evaluation of its expression left it.
\<close>

theorem builtin_rebinding:
  assumes "map_of setup_builtins b \<noteq> None"
    and "assign_match (strip stmt) = Some (b, expr)"
    and "CHR ''.'' \<notin> set b"
    and "eval_expression H n st expr [] = Inr (v, st1)"
  shows "globals init_state = setup_builtins \<and>
         (\<exists>st'. execute_statement H (Suc n) st stmt [] = Inr (v, [], st') \<and>
                map_of (globals st') b = Some v \<and>
                (\<forall>x. x \<noteq> b \<longrightarrow> map_of (globals st') x = map_of (globals st1) x))"
proof -
  have "execute_statement H (Suc n) st stmt [] =
          Inr (v, [], st1\<lparr>globals := AList.update b v (globals st1)\<rparr>)"
    using execute_plain_assignment [OF assms(2,3,4)] by simp
  then show ?thesis
    by (simp add: init_state_def update_conv' del: execute_statement.simps)
qed

theorem builtin_rebinding_witness:
  "\<exists>st'. execute_statement bare_host (Suc (Suc 0)) init_state ''print = 5'' [] =
           Inr (VInt 5, [], st') \<and>
         map_of (globals st') ''print'' = Some (VInt 5)"
proof -
  have h1: "map_of setup_builtins ''print'' \<noteq> None"
    by (rule assign_x_facts)
  have h2: "assign_match (strip ''print = 5'') = Some (''print'', ''5'')"
    by (rule assign_x_facts)
  have h3: "CHR ''.'' \<notin> set ''print''"
    by simp
  have h4: "eval_expression bare_host (Suc 0) init_state ''5'' [] = Inr (VInt 5, init_state)"
    by (rule eval_literal_5)
  from builtin_rebinding [OF h1 h2 h3 h4] show ?thesis
    by blast
qed

section \<open>Unterminated blocks\<close>












section \<open>Unresolved call targets and properties\<close>













end
